theory Spec2Isabelle
  imports Main
begin

section \<open>The LFU cache of internal/lfu/lfu.go\<close>

text \<open>
  The cache is pointer code: a chain of frequency buckets (\<open>nodeList\<close>), each owning a
  doubly linked list of entries (\<open>nodeValue\<close>), and a hash index from keys to entries.
  The embedding keeps the pointers. Objects live in two arenas (one list per struct type);
  a pointer is an index into its arena or \<open>None\<close> for \<open>nil\<close>; an allocation appends to the
  arena. Every assignment of the source is one update of the arena, in the order of the
  source, so that aliasing is what it is in the code. Dereferencing \<open>nil\<close> and the explicit
  \<open>panic\<close> calls are values of type \<open>panic\<close>; the error value \<open>ErrKeyNotFound\<close> is a value
  of type \<open>error\<close>.

  Go's \<open>int\<close> is modelled as \<open>int\<close>: the only arithmetic is \<open>frequency + 1\<close> and the
  comparison of \<open>len(mp)\<close> with the capacity.
\<close>

type_synonym addr = nat

datatype error = ErrKeyNotFound

datatype panic = NilDereference | CapacityPanic | ErrorPanic error

definition DefaultCapacity :: int where
  "DefaultCapacity = 5"

record nodeList =
  nl_frequency :: int
  nl_prev :: "addr option"
  nl_next :: "addr option"
  nl_first :: "addr option"
  nl_last :: "addr option"

record ('k, 'v) nodeValue =
  nv_key :: 'k
  nv_value :: 'v
  nv_next :: "addr option"
  nv_prev :: "addr option"
  nv_frequency :: "addr option"

text \<open>
  \<open>cacheImpl\<close>: the field \<open>frequencies\<close> is a \<open>list\<close> struct whose only field is the
  pointer \<open>sentinel\<close>; \<open>lists\<close> and \<open>vals\<close> are the arenas of the two struct types.
\<close>

record ('k, 'v) cacheImpl =
  capacity :: int
  sentinel :: addr
  mp :: "'k \<rightharpoonup> addr"
  lists :: "nodeList list"
  vals :: "('k, 'v) nodeValue list"

definition newNodeList ::
  "int \<Rightarrow> addr option \<Rightarrow> addr option \<Rightarrow> addr option \<Rightarrow> addr option \<Rightarrow> nodeList" where
  "newNodeList frequency frst lst prv nxt =
     \<lparr>nl_frequency = frequency, nl_prev = prv, nl_next = nxt, nl_first = frst, nl_last = lst\<rparr>"

text \<open>An assignment \<open>p.field = x\<close> through a non-nil pointer \<open>p\<close>.\<close>

definition upd_list ::
  "('k, 'v) cacheImpl \<Rightarrow> addr \<Rightarrow> (nodeList \<Rightarrow> nodeList) \<Rightarrow> ('k, 'v) cacheImpl" where
  "upd_list c a f = c\<lparr>lists := (lists c)[a := f (lists c ! a)]\<rparr>"

definition upd_val ::
  "('k, 'v) cacheImpl \<Rightarrow> addr \<Rightarrow> (('k, 'v) nodeValue \<Rightarrow> ('k, 'v) nodeValue) \<Rightarrow> ('k, 'v) cacheImpl" where
  "upd_val c a f = c\<lparr>vals := (vals c)[a := f (vals c ! a)]\<rparr>"

text \<open>
  \<open>addListFrontOrAfter\<close>: the variadic \<open>before\<close> is \<open>None\<close> (no argument, the sentinel is
  used) or \<open>Some b\<close>. Both callers pass pointers they have already dereferenced.
\<close>

definition addListFrontOrAfter ::
  "('k, 'v) cacheImpl \<Rightarrow> int \<Rightarrow> addr \<Rightarrow> addr option \<Rightarrow> ('k, 'v) cacheImpl" where
  "addListFrontOrAfter c frequency first before =
     (let bfr = (case before of None \<Rightarrow> sentinel c | Some b \<Rightarrow> b);
          node = length (lists c);
          c1 = c\<lparr>lists := lists c @
                 [newNodeList frequency (Some first) (Some first) (Some bfr)
                    (nl_next (lists c ! bfr))]\<rparr>;
          c2 = upd_list c1 bfr (\<lambda>n. n\<lparr>nl_next := Some node\<rparr>);
          c3 = (case nl_next (lists c2 ! node) of
                  Some nx \<Rightarrow> upd_list c2 nx (\<lambda>n. n\<lparr>nl_prev := Some node\<rparr>)
                | None \<Rightarrow> upd_list c2 (sentinel c2) (\<lambda>n. n\<lparr>nl_prev := Some node\<rparr>));
          c4 = upd_val c3 first (\<lambda>v. v\<lparr>nv_frequency := Some node\<rparr>)
      in upd_val c4 first (\<lambda>v. v\<lparr>nv_prev := None\<rparr>))"

definition addFrontByFreq ::
  "('k, 'v) cacheImpl \<Rightarrow> addr \<Rightarrow> addr \<Rightarrow> panic + ('k, 'v) cacheImpl" where
  "addFrontByFreq c l newFirst =
     (let c1 = upd_val c newFirst (\<lambda>v. v\<lparr>nv_prev := None\<rparr>);
          c2 = upd_val c1 newFirst (\<lambda>v. v\<lparr>nv_next := nl_first (lists c1 ! l)\<rparr>)
      in case nl_first (lists c2 ! l) of
           None \<Rightarrow> Inl NilDereference
         | Some f \<Rightarrow>
             (let c3 = upd_val c2 f (\<lambda>v. v\<lparr>nv_prev := Some newFirst\<rparr>);
                  c4 = upd_list c3 l (\<lambda>n. n\<lparr>nl_first := Some newFirst\<rparr>)
              in Inr (upd_val c4 newFirst (\<lambda>v. v\<lparr>nv_frequency := Some l\<rparr>))))"

definition New :: "int list \<Rightarrow> panic + ('k, 'v) cacheImpl" where
  "New capacity' =
     (case capacity' of
        [] \<Rightarrow> Inr \<lparr>capacity = DefaultCapacity, sentinel = 0, mp = Map.empty,
                   lists = [newNodeList 0 None None None None], vals = []\<rparr>
      | c0 # _ \<Rightarrow>
          if c0 < 0 then Inl CapacityPanic
          else Inr \<lparr>capacity = c0, sentinel = 0, mp = Map.empty,
                     lists = [newNodeList 0 None None None None], vals = []\<rparr>)"

definition untie :: "('k, 'v) cacheImpl \<Rightarrow> addr \<Rightarrow> panic + ('k, 'v) cacheImpl" where
  "untie c v =
     (let c1 = (case nv_prev (vals c ! v) of
                  None \<Rightarrow> c
                | Some p \<Rightarrow> upd_val c p (\<lambda>n. n\<lparr>nv_next := nv_next (vals c ! v)\<rparr>));
          c2 = (case nv_next (vals c1 ! v) of
                  None \<Rightarrow> c1
                | Some n \<Rightarrow> upd_val c1 n (\<lambda>m. m\<lparr>nv_prev := nv_prev (vals c1 ! v)\<rparr>))
      in case nv_frequency (vals c2 ! v) of
           None \<Rightarrow> Inl NilDereference
         | Some fr \<Rightarrow>
             (let c3 = (if nl_first (lists c2 ! fr) = Some v
                        then upd_list c2 fr (\<lambda>n. n\<lparr>nl_first := nv_next (vals c2 ! v)\<rparr>)
                        else c2);
                  c4 = (if nl_last (lists c3 ! fr) = Some v
                        then upd_list c3 fr (\<lambda>n. n\<lparr>nl_last := nv_prev (vals c3 ! v)\<rparr>)
                        else c3);
                  c5 = upd_val c4 v (\<lambda>n. n\<lparr>nv_prev := None\<rparr>)
              in Inr (upd_val c5 v (\<lambda>n. n\<lparr>nv_next := None\<rparr>))))"

text \<open>
  \<open>Get\<close> returns the pair of Go results as \<open>error + 'v\<close> together with the cache after
  the call, so that what a failed call leaves behind can be stated.
\<close>

definition Get ::
  "('k, 'v) cacheImpl \<Rightarrow> 'k \<Rightarrow> panic + ((error + 'v) \<times> ('k, 'v) cacheImpl)" where
  "Get c key =
     (case mp c key of
        None \<Rightarrow> Inr (Inl ErrKeyNotFound, c)
      | Some v \<Rightarrow>
          (case untie c v of
             Inl p \<Rightarrow> Inl p
           | Inr c1 \<Rightarrow>
               (case nv_frequency (vals c1 ! v) of
                  None \<Rightarrow> Inl NilDereference
                | Some currentNode \<Rightarrow>
                    (case (case nl_next (lists c1 ! currentNode) of
                             None \<Rightarrow>
                               Inr (addListFrontOrAfter c1
                                      (nl_frequency (lists c1 ! currentNode) + 1) v (Some currentNode))
                           | Some nx \<Rightarrow>
                               if nl_frequency (lists c1 ! currentNode) + 1 \<noteq> nl_frequency (lists c1 ! nx)
                               then Inr (addListFrontOrAfter c1
                                      (nl_frequency (lists c1 ! currentNode) + 1) v (Some currentNode))
                               else addFrontByFreq c1 nx v) of
                       Inl p \<Rightarrow> Inl p
                     | Inr c2 \<Rightarrow>
                         (case (if nl_first (lists c2 ! currentNode) = None
                                then (case nl_prev (lists c2 ! currentNode) of
                                        None \<Rightarrow> Inl NilDereference
                                      | Some prevNode \<Rightarrow>
                                          (let c3 = upd_list c2 prevNode
                                                 (\<lambda>n. n\<lparr>nl_next := nl_next (lists c2 ! currentNode)\<rparr>)
                                           in case nl_next (lists c3 ! currentNode) of
                                                None \<Rightarrow> Inr c3
                                              | Some nx \<Rightarrow>
                                                  Inr (upd_list c3 nx (\<lambda>n. n\<lparr>nl_prev := Some prevNode\<rparr>))))
                                else Inr c2) of
                            Inl p \<Rightarrow> Inl p
                          | Inr c4 \<Rightarrow> Inr (Inr (nv_value (vals c4 ! v)), c4))))))"

definition Size :: "('k, 'v) cacheImpl \<Rightarrow> int" where
  "Size c = int (card (dom (mp c)))"

definition Capacity :: "('k, 'v) cacheImpl \<Rightarrow> int" where
  "Capacity c = capacity c"

definition GetKeyFrequency ::
  "('k, 'v) cacheImpl \<Rightarrow> 'k \<Rightarrow> panic + ((error + int) \<times> ('k, 'v) cacheImpl)" where
  "GetKeyFrequency c key =
     (case mp c key of
        None \<Rightarrow> Inr (Inl ErrKeyNotFound, c)
      | Some v \<Rightarrow>
          (case nv_frequency (vals c ! v) of
             None \<Rightarrow> Inl NilDereference
           | Some fr \<Rightarrow> Inr (Inr (nl_frequency (lists c ! fr)), c)))"

definition delLast :: "('k, 'v) cacheImpl \<Rightarrow> panic + ('k, 'v) cacheImpl" where
  "delLast c =
     (case nl_next (lists c ! sentinel c) of
        None \<Rightarrow> Inr c
      | Some lastFreqNode \<Rightarrow>
          (case nl_last (lists c ! lastFreqNode) of
             None \<Rightarrow> Inl NilDereference
           | Some lst \<Rightarrow>
               (let c1 = c\<lparr>mp := (mp c)(nv_key (vals c ! lst) := None)\<rparr> in
                if (case nl_first (lists c1 ! lastFreqNode) of
                      None \<Rightarrow> True
                    | Some f \<Rightarrow> nv_next (vals c1 ! f) = None)
                then
                  (let c2 = (case nl_next (lists c1 ! lastFreqNode) of
                               None \<Rightarrow> c1
                             | Some nx \<Rightarrow> upd_list c1 nx (\<lambda>n. n\<lparr>nl_prev := Some (sentinel c1)\<rparr>))
                   in case nl_next (lists c2 ! sentinel c2) of
                        None \<Rightarrow> Inl NilDereference
                      | Some sn \<Rightarrow>
                          Inr (upd_list c2 (sentinel c2) (\<lambda>n. n\<lparr>nl_next := nl_next (lists c2 ! sn)\<rparr>)))
                else
                  (case nv_prev (vals c1 ! lst) of
                     None \<Rightarrow> Inl NilDereference
                   | Some lp \<Rightarrow>
                       (let c2 = upd_val c1 lp (\<lambda>n. n\<lparr>nv_next := None\<rparr>) in
                        case nl_next (lists c2 ! sentinel c2) of
                          None \<Rightarrow> Inl NilDereference
                        | Some sn \<Rightarrow>
                            (case nl_last (lists c2 ! lastFreqNode) of
                               None \<Rightarrow> Inl NilDereference
                             | Some l2 \<Rightarrow>
                                 Inr (upd_list c2 sn (\<lambda>n. n\<lparr>nl_last := nv_prev (vals c2 ! l2)\<rparr>))))))))"

definition Put :: "('k, 'v) cacheImpl \<Rightarrow> 'k \<Rightarrow> 'v \<Rightarrow> panic + ('k, 'v) cacheImpl" where
  "Put c key val =
     (case mp c key of
        Some node \<Rightarrow>
          (case Get (upd_val c node (\<lambda>n. n\<lparr>nv_value := val\<rparr>)) key of
             Inl p \<Rightarrow> Inl p
           | Inr (Inl err, _) \<Rightarrow> Inl (ErrorPanic err)
           | Inr (Inr _, c2) \<Rightarrow> Inr c2)
      | None \<Rightarrow>
          (case (if Size c \<ge> capacity c then delLast c else Inr c) of
             Inl p \<Rightarrow> Inl p
           | Inr c1 \<Rightarrow>
               (let node = length (vals c1);
                    c2 = c1\<lparr>vals := vals c1 @
                           [\<lparr>nv_key = key, nv_value = val, nv_next = None, nv_prev = None,
                             nv_frequency = nl_next (lists c1 ! sentinel c1)\<rparr>]\<rparr>
                in case (case nl_next (lists c2 ! sentinel c2) of
                           None \<Rightarrow> Inr (addListFrontOrAfter c2 1 node None)
                         | Some firstFreqNode \<Rightarrow>
                             if nl_frequency (lists c2 ! firstFreqNode) \<noteq> 1
                             then Inr (addListFrontOrAfter c2 1 node None)
                             else addFrontByFreq c2 firstFreqNode node) of
                     Inl p \<Rightarrow> Inl p
                   | Inr c3 \<Rightarrow> Inr (c3\<lparr>mp := (mp c3)(key \<mapsto> node)\<rparr>))))"

text \<open>
  \<open>All\<close> returns an iterator: a function of the consumer's \<open>yield\<close>. The consumer is a Go
  closure; its captured variables are the state \<open>'s\<close>, which \<open>yield\<close> updates, and the
  boolean says whether to go on. The two loops follow pointers, so they are partial
  functions: \<open>None\<close> means that the traversal does not return. The inner loop also says
  whether the consumer wants more.
\<close>

partial_function (option) All_values ::
  "('k, 'v) cacheImpl \<Rightarrow> ('s \<Rightarrow> 'k \<Rightarrow> 'v \<Rightarrow> 's \<times> bool) \<Rightarrow> addr option \<Rightarrow> 's \<Rightarrow> ('s \<times> bool) option" where
  "All_values c yield valNode s =
     (if valNode = None then Some (s, True)
      else if \<not> snd (yield s (nv_key (vals c ! the valNode)) (nv_value (vals c ! the valNode)))
      then Some (fst (yield s (nv_key (vals c ! the valNode)) (nv_value (vals c ! the valNode))), False)
      else All_values c yield (nv_next (vals c ! the valNode))
             (fst (yield s (nv_key (vals c ! the valNode)) (nv_value (vals c ! the valNode)))))"

partial_function (option) All_lists ::
  "('k, 'v) cacheImpl \<Rightarrow> ('s \<Rightarrow> 'k \<Rightarrow> 'v \<Rightarrow> 's \<times> bool) \<Rightarrow> addr option \<Rightarrow> 's \<Rightarrow> 's option" where
  "All_lists c yield freqNode s =
     (if freqNode = None \<or> freqNode = Some (sentinel c) then Some s
      else Option.bind (All_values c yield (nl_first (lists c ! the freqNode)) s)
             (\<lambda>r. if snd r then All_lists c yield (nl_prev (lists c ! the freqNode)) (fst r)
                  else Some (fst r)))"

definition All ::
  "('k, 'v) cacheImpl \<Rightarrow> ('s \<Rightarrow> 'k \<Rightarrow> 'v \<Rightarrow> 's \<times> bool) \<Rightarrow> 's \<Rightarrow> 's option" where
  "All c yield s = All_lists c yield (nl_prev (lists c ! sentinel c)) s"

text \<open>The consumer of the tests' \<open>collect\<close>: it appends every pair and never stops.\<close>

definition collect_yield :: "('k \<times> 'v) list \<Rightarrow> 'k \<Rightarrow> 'v \<Rightarrow> ('k \<times> 'v) list \<times> bool" where
  "collect_yield acc k v = (acc @ [(k, v)], True)"

definition collect :: "('k, 'v) cacheImpl \<Rightarrow> ('k \<times> 'v) list option" where
  "collect c = All c collect_yield []"


text \<open>The consumer of \<open>TestIterator\<close>: it stops at the pair \<open>(2, 20)\<close> without keeping it.\<close>

definition stop_at_2_20 :: "(int \<times> int) list \<Rightarrow> int \<Rightarrow> int \<Rightarrow> (int \<times> int) list \<times> bool" where
  "stop_at_2_20 acc k v = (if k = 2 \<and> v = 20 then (acc, False) else (acc @ [(k, v)], True))"

subsection \<open>Sequences of operations\<close>

text \<open>
  A client holds one cache and calls its methods one after the other. Beside the cache, a
  run keeps a clock (the number of calls so far) and, for every key, the time of the last
  call that touched it: a \<open>Get\<close> that found the key, or a \<open>Put\<close> of the key (inserting or
  updating). Clock and touch times are not part of the program; they are what "most
  recently touched" refers to. \<open>Size\<close>, \<open>Capacity\<close> and a traversal by \<open>All\<close> assign
  nothing in the cache.
\<close>

datatype ('k, 'v) op = OpGet 'k | OpPut 'k 'v | OpGetKeyFrequency 'k | OpSize | OpCapacity | OpAll

type_synonym ('k, 'v) traced = "nat \<times> ('k \<Rightarrow> nat) \<times> ('k, 'v) cacheImpl"

fun step :: "('k, 'v) traced \<Rightarrow> ('k, 'v) op \<Rightarrow> panic + ('k, 'v) traced" where
  "step (t, T, c) (OpGet k) =
     (case Get c k of
        Inl p \<Rightarrow> Inl p
      | Inr (Inl e, c') \<Rightarrow> Inr (Suc t, T, c')
      | Inr (Inr v, c') \<Rightarrow> Inr (Suc t, T(k := Suc t), c'))"
| "step (t, T, c) (OpPut k v) =
     (case Put c k v of
        Inl p \<Rightarrow> Inl p
      | Inr c' \<Rightarrow> Inr (Suc t, T(k := Suc t), c'))"
| "step (t, T, c) (OpGetKeyFrequency k) =
     (case GetKeyFrequency c k of
        Inl p \<Rightarrow> Inl p
      | Inr (r, c') \<Rightarrow> Inr (Suc t, T, c'))"
| "step (t, T, c) OpSize = Inr (Suc t, T, c)"
| "step (t, T, c) OpCapacity = Inr (Suc t, T, c)"
| "step (t, T, c) OpAll = Inr (Suc t, T, c)"

fun run :: "('k, 'v) traced \<Rightarrow> ('k, 'v) op list \<Rightarrow> panic + ('k, 'v) traced" where
  "run st [] = Inr st"
| "run st (x # xs) = (case step st x of Inl p \<Rightarrow> Inl p | Inr st' \<Rightarrow> run st' xs)"

definition run_from :: "int list \<Rightarrow> ('k, 'v) op list \<Rightarrow> panic + ('k, 'v) traced" where
  "run_from cap ops = (case New cap of Inl p \<Rightarrow> Inl p | Inr c0 \<Rightarrow> run (0, \<lambda>_. 0, c0) ops)"

text \<open>Scenario E of the specification, \<open>TestIterator\<close> of lfu\_test.go.\<close>

definition scenario_E :: "panic + (int, int) traced" where
  "scenario_E = run_from [4] [OpPut 1 10, OpPut 2 20, OpPut 3 30, OpPut 4 40, OpPut 5 50]"

text \<open>What a consumer has after traversing the cache at the end of a run.\<close>

definition observe_All ::
  "panic + ('k, 'v) traced \<Rightarrow> ('s \<Rightarrow> 'k \<Rightarrow> 'v \<Rightarrow> 's \<times> bool) \<Rightarrow> 's \<Rightarrow> 's option" where
  "observe_All r yield s = (case r of Inl p \<Rightarrow> None | Inr (t, T, c) \<Rightarrow> All c yield s)"

section \<open>Evaluation\<close>

lemmas lfu_eval =
  New_def DefaultCapacity_def Put_def Get_def untie_def Size_def Capacity_def GetKeyFrequency_def
  newNodeList_def addListFrontOrAfter_def addFrontByFreq_def upd_list_def upd_val_def delLast_def
  collect_def All_def All_lists.simps All_values.simps collect_yield_def run_from_def

section \<open>Construction\<close>

text \<open>
  C8. Construction with no capacity argument gives a cache of capacity 5; with a negative
  capacity it panics, so no instance exists; with any non-negative capacity it succeeds
  and the cache has that capacity.
\<close>

theorem New_capacity:
  "(\<exists>c. (New [] :: panic + ('k, 'v) cacheImpl) = Inr c \<and> Capacity c = 5) \<and>
   (\<forall>n rest. n < 0 \<longrightarrow> (New (n # rest) :: panic + ('k, 'v) cacheImpl) = Inl CapacityPanic) \<and>
   (\<forall>n rest. 0 \<le> n \<longrightarrow> (\<exists>c. (New (n # rest) :: panic + ('k, 'v) cacheImpl) = Inr c \<and> Capacity c = n))"
  by (simp add: New_def DefaultCapacity_def Capacity_def)

theorem New_capacity_witness:
  "(New [- 1] :: panic + (int, int) cacheImpl) = Inl CapacityPanic \<and>
   (\<exists>c. (New [0] :: panic + (int, int) cacheImpl) = Inr c \<and> Capacity c = 0) \<and>
   (\<exists>c. (New [3] :: panic + (int, int) cacheImpl) = Inr c \<and> Capacity c = 3)"
proof -
  have neg: "(- 1 :: int) < 0" and z: "(0 :: int) \<le> 0" and pos: "(0 :: int) \<le> 3"
    by simp_all
  note inst = New_capacity [where 'k = int and 'v = int]
  from inst neg have "(New [- 1] :: panic + (int, int) cacheImpl) = Inl CapacityPanic"
    by blast
  moreover from inst z have "\<exists>c. (New [0] :: panic + (int, int) cacheImpl) = Inr c \<and> Capacity c = 0"
    by blast
  moreover from inst pos have "\<exists>c. (New [3] :: panic + (int, int) cacheImpl) = Inr c \<and> Capacity c = 3"
    by blast
  ultimately show ?thesis by blast
qed

section \<open>Absent keys\<close>

text \<open>
  C5. For a key that is not in the index, \<open>Get\<close> and \<open>GetKeyFrequency\<close> return
  \<open>ErrKeyNotFound\<close> and no value, and the cache after the call is the cache before it: so
  its size, the frequency found for every key, and what \<open>All\<close> produces are the same.
\<close>

theorem absent_key_not_found:
  assumes "mp c k = None"
  shows "Get c k = Inr (Inl ErrKeyNotFound, c) \<and>
         GetKeyFrequency c k = Inr (Inl ErrKeyNotFound, c) \<and>
         (\<forall>r c'. Get c k = Inr (r, c') \<or> GetKeyFrequency c k = Inr (r, c') \<longrightarrow>
            c' = c \<and> Size c' = Size c \<and>
            (\<forall>k'. map_sum id fst (GetKeyFrequency c' k') = map_sum id fst (GetKeyFrequency c k')) \<and>
            (\<forall>yield s. All c' yield s = All c yield s))"
  using assms by (auto simp add: Get_def GetKeyFrequency_def)


section \<open>Scenario E\<close>

text \<open>
  C7, as stated: after the five insertions into a cache of capacity 4, \<open>All\<close> yields
  exactly the keys 5, 4, 3 with the values 50, 40, 30. It does not: key 2 is still in the
  cache and is yielded last.
\<close>

theorem scenario_E_counterexample:
  "observe_All scenario_E collect_yield [] \<noteq> Some [(5, 50), (4, 40), (3, 30)]"
  by (simp add: observe_All_def scenario_E_def lfu_eval)

text \<open>
  C7, amended: \<open>All\<close> yields the keys 5, 4, 3, 2 with the values 50, 40, 30, 20 (key 1 was
  evicted); the consumer of the test, which stops at the pair \<open>(2, 20)\<close>, has then received
  the keys 5, 4, 3 with the values 50, 40, 30.
\<close>

theorem scenario_E_All:
  "observe_All scenario_E collect_yield [] = Some [(5, 50), (4, 40), (3, 30), (2, 20)] \<and>
   observe_All scenario_E stop_at_2_20 [] = Some [(5, 50), (4, 40), (3, 30)]"
  by (simp add: observe_All_def scenario_E_def lfu_eval stop_at_2_20_def)

end
